theory Spec2Isabelle
  imports Complex_Main
begin

section \<open>Application store (lib/store: useAppStore)\<close>

text \<open>
  The store is created with zustand's \<open>create\<close>. Its state has four data fields; the
  actions are closures over zustand's \<open>set\<close>, which merges a partial state into the
  current one (fields absent from the partial state keep their value). A partial state
  is a record of optional fields; \<open>set_state\<close> is the functional form
  \<open>set((state) => partial)\<close> and \<open>set_const\<close> the object form \<open>set(partial)\<close>.
\<close>

datatype ModuleId =
  Architecture | Tokenizer | Embeddings | Attention | Profiler | Context | Redteaming | Router

record AppState =
  activeModule :: ModuleId
  sidebarCollapsed :: bool
  mathModeEnabled :: bool
  isLoading :: bool

record AppPartial =
  set_activeModule :: "ModuleId option"
  set_sidebarCollapsed :: "bool option"
  set_mathModeEnabled :: "bool option"
  set_isLoading :: "bool option"

definition no_change :: AppPartial where
  "no_change = \<lparr> set_activeModule = None, set_sidebarCollapsed = None,
                  set_mathModeEnabled = None, set_isLoading = None \<rparr>"

definition merge_state :: "AppState \<Rightarrow> AppPartial \<Rightarrow> AppState" where
  "merge_state s p =
     \<lparr> activeModule = (case set_activeModule p of None \<Rightarrow> activeModule s | Some v \<Rightarrow> v),
       sidebarCollapsed = (case set_sidebarCollapsed p of None \<Rightarrow> sidebarCollapsed s | Some v \<Rightarrow> v),
       mathModeEnabled = (case set_mathModeEnabled p of None \<Rightarrow> mathModeEnabled s | Some v \<Rightarrow> v),
       isLoading = (case set_isLoading p of None \<Rightarrow> isLoading s | Some v \<Rightarrow> v) \<rparr>"

definition set_state :: "(AppState \<Rightarrow> AppPartial) \<Rightarrow> AppState \<Rightarrow> AppState" where
  "set_state f s = merge_state s (f s)"

definition set_const :: "AppPartial \<Rightarrow> AppState \<Rightarrow> AppState" where
  "set_const p s = merge_state s p"

definition initialState :: AppState where
  "initialState = \<lparr> activeModule = Architecture, sidebarCollapsed = False,
                     mathModeEnabled = False, isLoading = False \<rparr>"

definition setActiveModule :: "ModuleId \<Rightarrow> AppState \<Rightarrow> AppState" where
  "setActiveModule m = set_const (no_change \<lparr> set_activeModule := Some m \<rparr>)"

definition toggleSidebar :: "AppState \<Rightarrow> AppState" where
  "toggleSidebar =
     set_state (\<lambda>state. no_change \<lparr> set_sidebarCollapsed := Some (\<not> sidebarCollapsed state) \<rparr>)"

definition toggleMathMode :: "AppState \<Rightarrow> AppState" where
  "toggleMathMode =
     set_state (\<lambda>state. no_change \<lparr> set_mathModeEnabled := Some (\<not> mathModeEnabled state) \<rparr>)"

definition setIsLoading :: "bool \<Rightarrow> AppState \<Rightarrow> AppState" where
  "setIsLoading loading = set_const (no_change \<lparr> set_isLoading := Some loading \<rparr>)"

section \<open>Context window view (ContextWindowModule: positionData)\<close>

text \<open>
  An entry of the recall curve has a \<open>position\<close> and a \<open>recall\<close> value; the view
  groups the entries by the three positions and shows, for each, the sum of the recall
  values (a \<open>reduce\<close> from 0) divided by the number of entries, or 0 when the
  group is empty. The recall values are finite JSON numbers, read as reals.
\<close>

record RecallEntry =
  position :: string
  recall :: real

definition positions :: "string list" where
  "positions = [''start'', ''middle'', ''end'']"

definition positionData :: "RecallEntry list \<Rightarrow> RecallEntry list" where
  "positionData recallData =
     map (\<lambda>pos.
            let items = filter (\<lambda>d. position d = pos) recallData;
                avgRecall = (if length items > 0
                             then foldl (\<lambda>sum d. sum + recall d) 0 items / real (length items)
                             else 0)
            in \<lparr> position = pos, recall = avgRecall \<rparr>)
         positions"

text \<open>The arithmetic mean as the specification words it, with the empty case set to 0.\<close>

definition arithmetic_mean :: "real list \<Rightarrow> real" where
  "arithmetic_mean xs = (if xs = [] then 0 else sum_list xs / real (length xs))"

section \<open>Attention heatmap (AttentionModule: getColor)\<close>

text \<open>
  \<open>Math.round\<close> rounds to the nearest integer, halves upwards. The template literal
  prints each channel in decimal.
\<close>

definition Math_round :: "real \<Rightarrow> int" where
  "Math_round v = \<lfloor>v + 1 / 2\<rfloor>"

fun show_nat :: "nat \<Rightarrow> string" where
  "show_nat n =
     (if n < 10 then [''0123456789'' ! n]
      else show_nat (n div 10) @ [''0123456789'' ! (n mod 10)])"

declare show_nat.simps [simp del]

definition show_int :: "int \<Rightarrow> string" where
  "show_int i = (if i < 0 then ''-'' @ show_nat (nat (- i)) else show_nat (nat i))"

definition rgb_template :: "int \<Rightarrow> int \<Rightarrow> int \<Rightarrow> string" where
  "rgb_template r g b =
     ''rgb('' @ show_int r @ '', '' @ show_int g @ '', '' @ show_int b @ '')''"

definition getColor :: "real \<Rightarrow> string" where
  "getColor weight =
     (let intensity = Math_round (weight * 255)
      in rgb_template intensity (Math_round (real_of_int intensity * 0.6)) (255 - intensity))"

section \<open>JavaScript numbers\<close>

text \<open>
  The display code divides by differences that can be zero and subtracts coordinates of
  any magnitude, so its numbers are modelled with the three special values of an IEEE
  double next to the finite ones. A finite value is a real. An arithmetic result whose
  exact value has magnitude at least \<open>2^1024 - 2^970\<close> is the infinity of its sign,
  as rounding to nearest gives; below that bound the exact value is kept, so rounding to
  53 bits and underflow are not modelled. Zero carries no sign (a nonzero finite value
  divided by zero is taken as divided by \<open>+0\<close>). The operations follow ECMAScript:
  anything with \<open>NaN\<close> is \<open>NaN\<close>, and \<open>0/0\<close>, \<open>\<infinity>/\<infinity>\<close>,
  \<open>\<infinity> - \<infinity>\<close> and \<open>0 * \<infinity>\<close> are \<open>NaN\<close>.
\<close>

datatype jsnum = Num real | PosInf | NegInf | NaN

definition overflow_bound :: real where
  "overflow_bound = 2 ^ 1024 - 2 ^ 970"

definition js_fin :: "real \<Rightarrow> jsnum" where
  "js_fin r =
     (if overflow_bound \<le> r then PosInf
      else if r \<le> - overflow_bound then NegInf
      else Num r)"

fun js_neg :: "jsnum \<Rightarrow> jsnum" where
  "js_neg (Num a) = Num (- a)"
| "js_neg PosInf = NegInf"
| "js_neg NegInf = PosInf"
| "js_neg NaN = NaN"

fun js_add :: "jsnum \<Rightarrow> jsnum \<Rightarrow> jsnum" where
  "js_add NaN _ = NaN"
| "js_add _ NaN = NaN"
| "js_add (Num a) (Num b) = js_fin (a + b)"
| "js_add (Num a) PosInf = PosInf"
| "js_add (Num a) NegInf = NegInf"
| "js_add PosInf NegInf = NaN"
| "js_add PosInf _ = PosInf"
| "js_add NegInf PosInf = NaN"
| "js_add NegInf _ = NegInf"

definition js_sub :: "jsnum \<Rightarrow> jsnum \<Rightarrow> jsnum" where
  "js_sub a b = js_add a (js_neg b)"

fun js_sign_inf :: "real \<Rightarrow> jsnum \<Rightarrow> jsnum" where
  "js_sign_inf a w = (if a = 0 then NaN else if 0 < a then w else js_neg w)"

fun js_mul :: "jsnum \<Rightarrow> jsnum \<Rightarrow> jsnum" where
  "js_mul NaN _ = NaN"
| "js_mul _ NaN = NaN"
| "js_mul (Num a) (Num b) = js_fin (a * b)"
| "js_mul (Num a) w = js_sign_inf a w"
| "js_mul w (Num b) = js_sign_inf b w"
| "js_mul PosInf w = w"
| "js_mul NegInf w = js_neg w"

fun js_div :: "jsnum \<Rightarrow> jsnum \<Rightarrow> jsnum" where
  "js_div NaN _ = NaN"
| "js_div _ NaN = NaN"
| "js_div (Num a) (Num b) = (if b = 0 then js_sign_inf a PosInf else js_fin (a / b))"
| "js_div (Num a) _ = Num 0"
| "js_div w (Num b) = (if 0 \<le> b then w else js_neg w)"
| "js_div _ _ = NaN"

fun js_min2 :: "jsnum \<Rightarrow> jsnum \<Rightarrow> jsnum" where
  "js_min2 NaN _ = NaN"
| "js_min2 _ NaN = NaN"
| "js_min2 NegInf _ = NegInf"
| "js_min2 _ NegInf = NegInf"
| "js_min2 PosInf b = b"
| "js_min2 a PosInf = a"
| "js_min2 (Num a) (Num b) = Num (min a b)"

fun js_max2 :: "jsnum \<Rightarrow> jsnum \<Rightarrow> jsnum" where
  "js_max2 NaN _ = NaN"
| "js_max2 _ NaN = NaN"
| "js_max2 PosInf _ = PosInf"
| "js_max2 _ PosInf = PosInf"
| "js_max2 NegInf b = b"
| "js_max2 a NegInf = a"
| "js_max2 (Num a) (Num b) = Num (max a b)"

text \<open>
  \<open>Math.min(...vs)\<close> and \<open>Math.max(...vs)\<close>: \<open>Infinity\<close> and \<open>-Infinity\<close> on
  no arguments, \<open>NaN\<close> as soon as one argument is \<open>NaN\<close>.
\<close>

definition Math_min :: "jsnum list \<Rightarrow> jsnum" where
  "Math_min vs = foldl js_min2 PosInf vs"

definition Math_max :: "jsnum list \<Rightarrow> jsnum" where
  "Math_max vs = foldl js_max2 NegInf vs"

text \<open>\<open>a || b\<close> on numbers: \<open>0\<close> and \<open>NaN\<close> are falsy.\<close>

fun js_truthy :: "jsnum \<Rightarrow> bool" where
  "js_truthy (Num a) = (a \<noteq> 0)"
| "js_truthy NaN = False"
| "js_truthy _ = True"

definition js_or :: "jsnum \<Rightarrow> jsnum \<Rightarrow> jsnum" where
  "js_or a b = (if js_truthy a then a else b)"

fun is_finite :: "jsnum \<Rightarrow> bool" where
  "is_finite (Num a) = True"
| "is_finite _ = False"

section \<open>Embeddings view (Embeddings3DVisualization: normalizedPoints)\<close>

text \<open>
  A point of the embeddings view (\<open>Point3D\<close>; the fields are prefixed since \<open>text\<close>
  is a keyword and \<open>x\<close>, \<open>y\<close>, \<open>z\<close> would capture variable names).
\<close>

record Point3D =
  p3_text :: string
  p3_x :: jsnum
  p3_y :: jsnum
  p3_z :: jsnum
  p3_cluster :: string

definition normalizedPoints :: "Point3D list \<Rightarrow> Point3D list" where
  "normalizedPoints points =
     (if length points = 0 then []
      else
        let xs = map p3_x points;
            ys = map p3_y points;
            zs = map p3_z points;
            minX = Math_min xs;
            maxX = Math_max xs;
            minY = Math_min ys;
            maxY = Math_max ys;
            minZ = Math_min zs;
            maxZ = Math_max zs;
            rangeX = js_or (js_sub maxX minX) (Num 1);
            rangeY = js_or (js_sub maxY minY) (Num 1);
            rangeZ = js_or (js_sub maxZ minZ) (Num 1);
            maxRange = Math_max [rangeX, rangeY, rangeZ]
        in map (\<lambda>p. p \<lparr> p3_x := js_sub (js_mul (js_div (js_sub (p3_x p) minX) maxRange) (Num 4)) (Num 2),
                         p3_y := js_sub (js_mul (js_div (js_sub (p3_y p) minY) maxRange) (Num 4)) (Num 2),
                         p3_z := js_sub (js_mul (js_div (js_sub (p3_z p) minZ) maxRange) (Num 4)) (Num 2) \<rparr>)
               points)"

text \<open>
  The quantities the statements about \<open>normalizedPoints\<close> are written with, on reals:
  the value of a finite number, the range of one axis with the fallback 1 for a zero
  range, and the largest of the three axis ranges.
\<close>

fun num_val :: "jsnum \<Rightarrow> real" where
  "num_val (Num a) = a"
| "num_val _ = 0"

definition axis_min :: "(Point3D \<Rightarrow> jsnum) \<Rightarrow> Point3D list \<Rightarrow> real" where
  "axis_min c points = Min (set (map (num_val \<circ> c) points))"

definition axis_max :: "(Point3D \<Rightarrow> jsnum) \<Rightarrow> Point3D list \<Rightarrow> real" where
  "axis_max c points = Max (set (map (num_val \<circ> c) points))"

definition axis_range :: "(Point3D \<Rightarrow> jsnum) \<Rightarrow> Point3D list \<Rightarrow> real" where
  "axis_range c points =
     (if axis_max c points - axis_min c points = 0 then 1
      else axis_max c points - axis_min c points)"

definition max_axis_range :: "Point3D list \<Rightarrow> real" where
  "max_axis_range points =
     max (axis_range p3_x points) (max (axis_range p3_y points) (axis_range p3_z points))"

definition finite_point :: "Point3D \<Rightarrow> bool" where
  "finite_point p \<longleftrightarrow> is_finite (p3_x p) \<and> is_finite (p3_y p) \<and> is_finite (p3_z p)"

text \<open>No axis has a range so large that the subtraction \<open>max - min\<close> overflows.\<close>

definition ranges_finite :: "Point3D list \<Rightarrow> bool" where
  "ranges_finite points \<longleftrightarrow>
     axis_max p3_x points - axis_min p3_x points < overflow_bound
     \<and> axis_max p3_y points - axis_min p3_y points < overflow_bound
     \<and> axis_max p3_z points - axis_min p3_z points < overflow_bound"

text \<open>The coordinate that the view computes on one axis, on reals.\<close>

definition scaled :: "Point3D list \<Rightarrow> (Point3D \<Rightarrow> jsnum) \<Rightarrow> Point3D \<Rightarrow> real" where
  "scaled points c p = (num_val (c p) - axis_min c points) / max_axis_range points * 4 - 2"

text \<open>Two points of the embeddings view that differ on two axes.\<close>

definition sample_embeddings :: "Point3D list" where
  "sample_embeddings =
     [\<lparr> p3_text = ''king'', p3_x = Num 1, p3_y = Num 1, p3_z = Num 1, p3_cluster = ''royalty'' \<rparr>,
      \<lparr> p3_text = ''queen'', p3_x = Num 3, p3_y = Num 2, p3_z = Num 1, p3_cluster = ''royalty'' \<rparr>]"

text \<open>
  Two points with the finite coordinates \<open>-1e308\<close> and \<open>1e308\<close> on the first axis;
  two points whose largest axis range is one half; a point with a coordinate that is
  not a number.
\<close>

definition huge_embeddings :: "Point3D list" where
  "huge_embeddings =
     [\<lparr> p3_text = ''west'', p3_x = Num (- (10 ^ 308)), p3_y = Num 0, p3_z = Num 0,
        p3_cluster = ''a'' \<rparr>,
      \<lparr> p3_text = ''east'', p3_x = Num (10 ^ 308), p3_y = Num 0, p3_z = Num 0,
        p3_cluster = ''a'' \<rparr>]"

definition narrow_embeddings :: "Point3D list" where
  "narrow_embeddings =
     [\<lparr> p3_text = ''near'', p3_x = Num 0, p3_y = Num 0, p3_z = Num 0, p3_cluster = ''a'' \<rparr>,
      \<lparr> p3_text = ''far'', p3_x = Num (1 / 2), p3_y = Num 0, p3_z = Num 0,
        p3_cluster = ''a'' \<rparr>]"

definition nan_embeddings :: "Point3D list" where
  "nan_embeddings =
     [\<lparr> p3_text = ''lost'', p3_x = NaN, p3_y = Num 0, p3_z = Num 0, p3_cluster = ''a'' \<rparr>]"

text \<open>A flat input of the embeddings view: two texts at the same place.\<close>

definition flat_embeddings :: "Point3D list" where
  "flat_embeddings =
     [\<lparr> p3_text = ''cat'', p3_x = Num 1, p3_y = Num 1, p3_z = Num 1, p3_cluster = ''a'' \<rparr>,
      \<lparr> p3_text = ''dog'', p3_x = Num 1, p3_y = Num 1, p3_z = Num 1, p3_cluster = ''a'' \<rparr>]"

section \<open>Head profiler view (AttentionHeadProfilerModule)\<close>

record HeadPoint =
  hp_x :: jsnum
  hp_y :: jsnum
  hp_z :: jsnum
  hp_layer :: nat
  hp_head :: nat
  hp_cluster :: int
  hp_label :: string
  hp_name :: string

definition CLUSTER_COLORS :: "string list" where
  "CLUSTER_COLORS = [''#3b82f6'', ''#10b981'', ''#f59e0b'', ''#ef4444'', ''#8b5cf6'']"

text \<open>Reading an array at a number: \<open>undefined\<close> (here \<open>None\<close>) outside the indices.\<close>

definition array_get :: "'a list \<Rightarrow> int \<Rightarrow> 'a option" where
  "array_get xs i = (if 0 \<le> i \<and> i < int (length xs) then Some (xs ! nat i) else None)"

definition normalizeCoord :: "jsnum \<Rightarrow> jsnum \<Rightarrow> jsnum \<Rightarrow> jsnum" where
  "normalizeCoord v mn mx = js_mul (js_div (js_sub v mn) (js_sub mx mn)) (Num 100)"

text \<open>
  The style of one plotted point: \<open>left\<close> and \<open>top\<close> in percent, \<open>width\<close> and
  \<open>height\<close> (the same \<open>size\<close>) in pixels, and the background colour.
\<close>

record PointStyle =
  style_left :: jsnum
  style_top :: jsnum
  style_size :: jsnum
  style_backgroundColor :: "string option"

text \<open>
  The points are plotted, and the legend below them is shown, only when there is at
  least one point (and the query has neither failed nor is still loading).
\<close>

definition plotPoints :: "HeadPoint list \<Rightarrow> PointStyle list" where
  "plotPoints points =
     (let xValues = map hp_x points;
          yValues = map hp_y points;
          zValues = map hp_z points;
          xMin = Math_min xValues;
          xMax = Math_max xValues;
          yMin = Math_min yValues;
          yMax = Math_max yValues;
          zMin = Math_min zValues;
          zMax = Math_max zValues
      in if length points > 0
         then map (\<lambda>point.
                \<lparr> style_left = normalizeCoord (hp_x point) xMin xMax,
                  style_top = js_sub (Num 100) (normalizeCoord (hp_y point) yMin yMax),
                  style_size =
                    js_add (Num 4)
                      (js_mul (js_div (js_sub (hp_z point) zMin) (js_sub zMax zMin)) (Num 4)),
                  style_backgroundColor = array_get CLUSTER_COLORS (hp_cluster point) \<rparr>)
              points
         else [])"

record LegendEntry =
  legend_clusterId :: int
  legend_color :: "string option"
  legend_label :: string
  legend_count :: nat

definition legend :: "HeadPoint list \<Rightarrow> LegendEntry list" where
  "legend points =
     (if length points > 0
      then map (\<lambda>clusterId.
             let fallback = ''Cluster '' @ show_int clusterId;
                 clusterLabel =
                   (case find (\<lambda>p. hp_cluster p = clusterId) points of
                      None \<Rightarrow> fallback
                    | Some p \<Rightarrow> if hp_label p = [] then fallback else hp_label p);
                 count = length (filter (\<lambda>p. hp_cluster p = clusterId) points)
             in \<lparr> legend_clusterId = clusterId,
                  legend_color = array_get CLUSTER_COLORS clusterId,
                  legend_label = clusterLabel,
                  legend_count = count \<rparr>)
           [0, 1, 2, 3, 4]
      else [])"

text \<open>
  The view takes the points as the response carries them and checks no cluster id. The
  statements below are about the lists of points whose cluster ids all lie in the range
  \<open>[0, 5)\<close> of the five clusters.
\<close>

definition cluster_ids_in_range :: "HeadPoint list \<Rightarrow> bool" where
  "cluster_ids_in_range points = list_all (\<lambda>p. 0 \<le> hp_cluster p \<and> hp_cluster p < 5) points"

text \<open>A snapshot of three heads in the clusters 0, 4 and 4.\<close>

definition sample_heads :: "HeadPoint list" where
  "sample_heads =
     [\<lparr> hp_x = Num 1, hp_y = Num 5, hp_z = Num 2, hp_layer = 0, hp_head = 0,
        hp_cluster = 0, hp_label = ''Syntax Tracker'', hp_name = ''L0H0'' \<rparr>,
      \<lparr> hp_x = Num 3, hp_y = Num 4, hp_z = Num 0, hp_layer = 0, hp_head = 1,
        hp_cluster = 4, hp_label = ''Context Aggregator'', hp_name = ''L0H1'' \<rparr>,
      \<lparr> hp_x = Num 2, hp_y = Num 7, hp_z = Num 1, hp_layer = 1, hp_head = 0,
        hp_cluster = 4, hp_label = ''Context Aggregator'', hp_name = ''L1H0'' \<rparr>]"

text \<open>Two heads whose cluster ids, 5 and \<open>-1\<close>, are outside the five clusters.\<close>

definition stray_heads :: "HeadPoint list" where
  "stray_heads =
     [\<lparr> hp_x = Num 1, hp_y = Num 5, hp_z = Num 2, hp_layer = 0, hp_head = 0,
        hp_cluster = 5, hp_label = ''Cluster 5'', hp_name = ''L0H0'' \<rparr>,
      \<lparr> hp_x = Num 3, hp_y = Num 4, hp_z = Num 0, hp_layer = 0, hp_head = 1,
        hp_cluster = - 1, hp_label = ''Noise'', hp_name = ''L0H1'' \<rparr>]"

text \<open>A flat input: two heads projected to the same place.\<close>

definition flat_heads :: "HeadPoint list" where
  "flat_heads =
     [\<lparr> hp_x = Num 1, hp_y = Num 1, hp_z = Num 1, hp_layer = 0, hp_head = 0,
        hp_cluster = 0, hp_label = ''Syntax Tracker'', hp_name = ''L0H0'' \<rparr>,
      \<lparr> hp_x = Num 1, hp_y = Num 1, hp_z = Num 1, hp_layer = 0, hp_head = 1,
        hp_cluster = 0, hp_label = ''Syntax Tracker'', hp_name = ''L0H1'' \<rparr>]"

section \<open>API client library (lib/api)\<close>

text \<open>
  An API object is a table from accessor names to accessors, and an accessor is a
  function from its argument to the request that it sends (the body of a POST, which is
  the argument itself, is not part of the model). Calling a property that the object does
  not define throws a \<open>TypeError\<close> (\<open>undefined\<close> is not a function), whatever
  the argument.
\<close>

datatype http_method = GET | POST

record Request =
  http :: http_method
  url :: string

datatype js_error = TypeError

definition attentionApi :: "(string \<times> ('a \<Rightarrow> Request)) list" where
  "attentionApi =
     [(''analyze'', \<lambda>data. \<lparr> http = POST, url = ''/api/attention/analyze'' \<rparr>)]"

text \<open>
  \<open>getRecallCurve\<close> has the default \<open>16000\<close> for its parameter \<open>maxTokens\<close>
  (\<open>None\<close> is the call without an argument) and writes it into the query string.
\<close>

definition contextApi :: "(string \<times> (int option \<Rightarrow> Request)) list" where
  "contextApi =
     [(''getRecallCurve'',
       \<lambda>arg. let maxTokens = (case arg of None \<Rightarrow> 16000 | Some n \<Rightarrow> n)
             in \<lparr> http = GET,
                  url = ''/api/context/recall-curve?max_tokens='' @ show_int maxTokens \<rparr>)]"

definition call_accessor ::
  "(string \<times> ('a \<Rightarrow> Request)) list \<Rightarrow> string \<Rightarrow> 'a \<Rightarrow> js_error + Request" where
  "call_accessor api name arg =
     (case map_of api name of None \<Rightarrow> Inl TypeError | Some f \<Rightarrow> Inr (f arg))"

text \<open>
  The queries of the head profiler view, each with its query key and the accessor of
  \<open>attentionApi\<close> that its query function calls.
\<close>

definition profilerQueries :: "(string \<times> string) list" where
  "profilerQueries =
     [(''head-profiles'', ''getHeadProfiles''),
      (''head-examples'', ''getHeadExamples''),
      (''cluster-info'', ''getClusterInfo''),
      (''profiler-metadata'', ''getMetadata''),
      (''head-explanation'', ''getHeadExplanation'')]"

section \<open>Feature builder\<close>

text \<open>
  Modelled from the spec: \<open>buildFeatures\<close> (the Feature Builder) is not among the
  sources. After the specification, the extractor is called once for every sentence of
  the corpus and yields one attention matrix per head, or fails, in which case the
  sentence is dropped; a matrix with a row whose sum is not 1 within the tolerance
  \<open>1e-3\<close> makes the build fail at once; the run fails when fewer than a minimum
  number of sentences are left; otherwise the per-sentence statistics are aggregated
  into the feature vectors. The statistics and their aggregation are a parameter. The
  specification does not name the error for a matrix that is not normalized; it is
  called \<open>NonNormalizedMatrix\<close> here. Matrix entries are reals.
\<close>

type_synonym HeadIdentity = "nat \<times> nat"

type_synonym AttentionObservation = "real list list"

type_synonym AttentionExtractor = "string \<Rightarrow> (HeadIdentity \<times> AttentionObservation) list option"

datatype FeatureError = NonNormalizedMatrix | InsufficientCorpusError

text \<open>
  Modelled from the spec: a row sums to 1 within the tolerance \<open>1e-3\<close>; a matrix is
  normalized when each of its rows does.
\<close>

definition row_sums_to_one :: "real list \<Rightarrow> bool" where
  "row_sums_to_one row \<longleftrightarrow> \<bar>sum_list row - 1\<bar> \<le> 1 / 1000"

definition observation_normalized :: "AttentionObservation \<Rightarrow> bool" where
  "observation_normalized m = list_all row_sums_to_one m"

text \<open>
  Modelled from the spec: the pass over the corpus, missing from the sources. A sentence
  the extractor fails on is dropped; the first matrix that is not normalized ends the
  pass with the error.
\<close>

fun collectObservations ::
  "AttentionExtractor \<Rightarrow> string list
     \<Rightarrow> FeatureError + (HeadIdentity \<times> AttentionObservation) list list" where
  "collectObservations extractor [] = Inr []"
| "collectObservations extractor (sentence # corpus) =
     (case extractor sentence of
        None \<Rightarrow> collectObservations extractor corpus
      | Some obs \<Rightarrow>
          if list_all (\<lambda>(h, m). observation_normalized m) obs
          then (case collectObservations extractor corpus of
                  Inl e \<Rightarrow> Inl e
                | Inr rest \<Rightarrow> Inr (obs # rest))
          else Inl NonNormalizedMatrix)"

text \<open>
  Modelled from the spec: \<open>buildFeatures\<close>, missing from the sources, with the minimum
  number of sentences and the aggregation of the statistics as parameters.
\<close>

definition buildFeatures ::
  "nat \<Rightarrow> ((HeadIdentity \<times> AttentionObservation) list list \<Rightarrow> 'f)
     \<Rightarrow> AttentionExtractor \<Rightarrow> string list \<Rightarrow> FeatureError + 'f" where
  "buildFeatures minSentences aggregate extractor corpus =
     (case collectObservations extractor corpus of
        Inl e \<Rightarrow> Inl e
      | Inr observations \<Rightarrow>
          if length observations < minSentences then Inl InsufficientCorpusError
          else Inr (aggregate observations))"

text \<open>The matrices that a build consumes: those the extractor yields on the corpus.\<close>

definition consumed :: "AttentionExtractor \<Rightarrow> string list \<Rightarrow> AttentionObservation list" where
  "consumed extractor corpus =
     concat (map (\<lambda>sentence. case extractor sentence of
                                None \<Rightarrow> []
                              | Some obs \<Rightarrow> map snd obs) corpus)"

text \<open>An extractor that knows two sentences; the second matrix has a row summing to 0.9.\<close>

definition sample_extractor :: AttentionExtractor where
  "sample_extractor sentence =
     (if sentence = ''the cat sat'' then Some [((0, 0), [[1 / 2, 1 / 2], [1 / 4, 3 / 4]])]
      else if sentence = ''a dog ran'' then Some [((0, 0), [[1 / 2, 2 / 5], [1, 0]])]
      else None)"

section \<open>Properties of the store\<close>

lemma toggleMathMode_fields:
  "toggleMathMode s = s \<lparr> mathModeEnabled := \<not> mathModeEnabled s \<rparr>"
  by (simp add: toggleMathMode_def set_state_def merge_state_def no_change_def)

lemma toggleSidebar_fields:
  "toggleSidebar s = s \<lparr> sidebarCollapsed := \<not> sidebarCollapsed s \<rparr>"
  by (simp add: toggleSidebar_def set_state_def merge_state_def no_change_def)

text \<open>
  Claim C8. In every store state, \<open>toggleMathMode\<close> negates \<open>mathModeEnabled\<close> and
  leaves \<open>activeModule\<close>, \<open>sidebarCollapsed\<close> and \<open>isLoading\<close> as they were;
  \<open>toggleSidebar\<close> negates \<open>sidebarCollapsed\<close> and leaves the other three fields as
  they were; applying either toggle twice gives back the state it started from.
\<close>

theorem toggles_frame_and_involution:
  "mathModeEnabled (toggleMathMode s) = (\<not> mathModeEnabled s)
   \<and> activeModule (toggleMathMode s) = activeModule s
   \<and> sidebarCollapsed (toggleMathMode s) = sidebarCollapsed s
   \<and> isLoading (toggleMathMode s) = isLoading s
   \<and> sidebarCollapsed (toggleSidebar s) = (\<not> sidebarCollapsed s)
   \<and> activeModule (toggleSidebar s) = activeModule s
   \<and> mathModeEnabled (toggleSidebar s) = mathModeEnabled s
   \<and> isLoading (toggleSidebar s) = isLoading s
   \<and> toggleMathMode (toggleMathMode s) = s
   \<and> toggleSidebar (toggleSidebar s) = s"
  by (simp add: toggleMathMode_fields toggleSidebar_fields)

section \<open>Properties of the context window view\<close>

lemma reduce_recall_sum:
  "foldl (\<lambda>sum d. sum + recall d) a items = a + sum_list (map recall items)"
  by (induction items arbitrary: a) simp_all

text \<open>
  Claim C9. For every recall-curve dataset, the view shows one value for each of the
  positions start, middle and end, in this order, and the value shown for a position is
  the arithmetic mean of the recall fields of exactly the entries with that position,
  which is 0 when no entry has that position (nothing is divided by zero).
\<close>

theorem positionData_mean:
  "positionData ds =
     map (\<lambda>pos. \<lparr> position = pos,
                  recall = arithmetic_mean (map recall (filter (\<lambda>d. position d = pos) ds)) \<rparr>)
         [''start'', ''middle'', ''end'']"
  by (simp add: positionData_def positions_def arithmetic_mean_def reduce_recall_sum Let_def)

section \<open>Properties of the heatmap colour\<close>

lemma Math_round_bounds:
  assumes "0 \<le> v" and "v \<le> real_of_int n"
  shows "0 \<le> Math_round v \<and> Math_round v \<le> n"
proof -
  have "0 \<le> \<lfloor>v + 1 / 2\<rfloor>" using assms(1) by (simp add: le_floor_iff)
  moreover have "v + 1 / 2 < real_of_int n + 1" using assms(2) by simp
  then have "\<lfloor>v + 1 / 2\<rfloor> \<le> n" by (simp add: floor_le_iff)
  ultimately show ?thesis by (simp add: Math_round_def)
qed

text \<open>
  Claim C10. For every weight \<open>w\<close> with \<open>0 \<le> w \<le> 1\<close>, \<open>getColor w\<close> is the text
  \<open>rgb(r, g, b)\<close> where the red channel \<open>r\<close> is \<open>round (w * 255)\<close>, the green
  channel \<open>g\<close> is \<open>round (r * 0.6)\<close>, the blue channel \<open>b\<close> is \<open>255 - r\<close>, and
  each of the three is an integer between 0 and 255.
\<close>

theorem getColor_channels:
  assumes "0 \<le> w" and "w \<le> 1"
  shows "\<exists>r g b. getColor w = rgb_template r g b
           \<and> r = Math_round (w * 255)
           \<and> g = Math_round (real_of_int r * 0.6)
           \<and> b = 255 - r
           \<and> 0 \<le> r \<and> r \<le> 255 \<and> 0 \<le> g \<and> g \<le> 255 \<and> 0 \<le> b \<and> b \<le> 255"
proof -
  define r where "r = Math_round (w * 255)"
  define g where "g = Math_round (real_of_int r * 0.6)"
  have "0 \<le> w * 255" "w * 255 \<le> real_of_int 255" using assms by simp_all
  then have r: "0 \<le> r \<and> r \<le> 255" unfolding r_def by (rule Math_round_bounds)
  then have "0 \<le> real_of_int r * 0.6" "real_of_int r * 0.6 \<le> real_of_int 255" by simp_all
  then have g: "0 \<le> g \<and> g \<le> 255" unfolding g_def by (rule Math_round_bounds)
  have "getColor w = rgb_template r g (255 - r)"
    by (simp add: getColor_def Let_def r_def g_def)
  with r g show ?thesis unfolding r_def g_def by auto
qed

text \<open>The weight one half, the middle swatch of the view's legend: \<open>rgb(128, 77, 127)\<close>.\<close>

theorem getColor_channels_witness:
  "(0::real) \<le> 1 / 2 \<and> (1 / 2 :: real) \<le> 1 \<and>
   (\<exists>r g b. getColor (1 / 2) = rgb_template r g b
           \<and> r = Math_round (1 / 2 * 255)
           \<and> g = Math_round (real_of_int r * 0.6)
           \<and> b = 255 - r
           \<and> 0 \<le> r \<and> r \<le> 255 \<and> 0 \<le> g \<and> g \<le> 255 \<and> 0 \<le> b \<and> b \<le> 255)"
  using getColor_channels [of "1 / 2"] by simp

lemma getColor_half: "getColor (1 / 2) = ''rgb(128, 77, 127)''"
  by (simp add: getColor_def Math_round_def rgb_template_def show_int_def show_nat.simps)

section \<open>Properties of the number model\<close>

lemma overflow_bound_large: "2 ^ 1023 \<le> overflow_bound"
proof -
  have "(2::real) ^ 970 \<le> 2 ^ 1023" by (rule power_increasing) simp_all
  moreover have "(2::real) ^ 1024 = 2 * 2 ^ 1023" by simp
  ultimately show ?thesis by (simp add: overflow_bound_def)
qed

lemma js_fin_Num:
  assumes "- overflow_bound < r" and "r < overflow_bound"
  shows "js_fin r = Num r"
  using assms by (simp add: js_fin_def)

lemma small_below_overflow:
  assumes "\<bar>r\<bar> \<le> 1000"
  shows "- overflow_bound < r \<and> r < overflow_bound"
proof -
  have "(1000::real) < 2 ^ 10" by simp
  also have "(2::real) ^ 10 \<le> 2 ^ 1023" by (rule power_increasing) simp_all
  also note overflow_bound_large
  finally have "(1000::real) < overflow_bound" .
  with assms show ?thesis by linarith
qed

lemma js_fin_small: "\<bar>r\<bar> \<le> 1000 \<Longrightarrow> js_fin r = Num r"
  using small_below_overflow [of r] by (simp add: js_fin_Num)

lemma js_fin_overflow: "overflow_bound \<le> r \<Longrightarrow> js_fin r = PosInf"
  by (simp add: js_fin_def)

lemma js_sub_Num: "js_sub (Num a) (Num b) = js_fin (a - b)"
  by (simp add: js_sub_def)

section \<open>Properties of the embeddings view\<close>

lemma fold_min2_Num: "foldl js_min2 (Num a) (map Num vs) = Num (fold min vs a)"
  by (induction vs arbitrary: a) (simp_all add: min.commute)

lemma fold_max2_Num: "foldl js_max2 (Num a) (map Num vs) = Num (fold max vs a)"
  by (induction vs arbitrary: a) (simp_all add: max.commute)

lemma Math_min_Num:
  assumes "vs \<noteq> []"
  shows "Math_min (map Num vs) = Num (Min (set vs))"
proof (cases vs)
  case Nil
  then show ?thesis using assms by simp
next
  case (Cons v ws)
  have "Math_min (map Num vs) = Num (fold min ws v)"
    by (simp add: Cons Math_min_def fold_min2_Num)
  also have "fold min ws v = Min (set vs)"
    unfolding Cons by (rule Min.set_eq_fold [symmetric])
  finally show ?thesis .
qed

lemma Math_max_Num:
  assumes "vs \<noteq> []"
  shows "Math_max (map Num vs) = Num (Max (set vs))"
proof (cases vs)
  case Nil
  then show ?thesis using assms by simp
next
  case (Cons v ws)
  have "Math_max (map Num vs) = Num (fold max ws v)"
    by (simp add: Cons Math_max_def fold_max2_Num)
  also have "fold max ws v = Max (set vs)"
    unfolding Cons by (rule Max.set_eq_fold [symmetric])
  finally show ?thesis .
qed

lemma finite_coord: "is_finite v \<Longrightarrow> v = Num (num_val v)"
  by (cases v) simp_all

lemma finite_axis:
  assumes "\<forall>p \<in> set points. is_finite (c p)"
  shows "map c points = map Num (map (num_val \<circ> c) points)"
  using assms by (induction points) (auto dest: finite_coord)

lemma axis_Math_min:
  assumes "points \<noteq> []" and "\<forall>p \<in> set points. is_finite (c p)"
  shows "Math_min (map c points) = Num (axis_min c points)"
  using assms by (simp add: finite_axis [OF assms(2)] Math_min_Num axis_min_def del: map_map)

lemma axis_Math_max:
  assumes "points \<noteq> []" and "\<forall>p \<in> set points. is_finite (c p)"
  shows "Math_max (map c points) = Num (axis_max c points)"
  using assms by (simp add: finite_axis [OF assms(2)] Math_max_Num axis_max_def del: map_map)

lemma axis_bounds:
  assumes "p \<in> set points"
  shows "axis_min c points \<le> num_val (c p) \<and> num_val (c p) \<le> axis_max c points"
  using assms by (simp add: axis_min_def axis_max_def)

lemma axis_range_pos:
  assumes "p \<in> set points"
  shows "0 < axis_range c points \<and> axis_max c points - axis_min c points \<le> axis_range c points"
proof -
  from axis_bounds [OF assms, of c] have "axis_min c points \<le> axis_max c points" by linarith
  then show ?thesis by (simp add: axis_range_def)
qed

lemma js_range:
  assumes "p \<in> set points"
    and "axis_max c points - axis_min c points < overflow_bound"
  shows "js_or (js_sub (Num (axis_max c points)) (Num (axis_min c points))) (Num 1)
           = Num (axis_range c points)"
proof -
  from axis_bounds [OF assms(1), of c]
  have "0 \<le> axis_max c points - axis_min c points" by linarith
  moreover from overflow_bound_large have "0 < overflow_bound"
    by (rule less_le_trans [rotated]) simp
  ultimately have "- overflow_bound < axis_max c points - axis_min c points" by linarith
  then have "js_sub (Num (axis_max c points)) (Num (axis_min c points))
               = Num (axis_max c points - axis_min c points)"
    unfolding js_sub_Num using assms(2) by (rule js_fin_Num)
  then show ?thesis by (simp add: js_or_def axis_range_def)
qed

lemma Math_max3: "Math_max [Num a, Num b, Num d] = Num (max a (max b d))"
  by (simp add: Math_max_def max.commute max.left_commute)

lemma scale_Num:
  assumes "m \<le> a" and "a - m \<le> s" and "0 < s" and "a - m < overflow_bound"
  shows "js_sub (js_mul (js_div (js_sub (Num a) (Num m)) (Num s)) (Num 4)) (Num 2)
           = Num ((a - m) / s * 4 - 2)"
proof -
  define t where "t = (a - m) / s"
  have t: "0 \<le> t" "t \<le> 1" using assms by (simp_all add: t_def)
  from overflow_bound_large have pos: "0 < overflow_bound"
    by (rule less_le_trans [rotated]) simp
  have "- overflow_bound < a - m" using assms(1) pos by linarith
  then have "js_sub (Num a) (Num m) = Num (a - m)"
    unfolding js_sub_Num using assms(4) by (rule js_fin_Num)
  moreover have "js_div (Num (a - m)) (Num s) = Num t"
    using assms(3) t by (simp add: t_def [symmetric] js_fin_small)
  moreover have "js_mul (Num t) (Num 4) = Num (t * 4)"
    using t by (simp add: js_fin_small)
  moreover have "js_sub (Num (t * 4)) (Num 2) = Num (t * 4 - 2)"
    unfolding js_sub_Num using t by (simp add: js_fin_small)
  ultimately show ?thesis by (simp add: t_def)
qed

lemma scaled_in_range:
  fixes a m s r :: real
  assumes "m \<le> a" and "a - m \<le> r" and "r \<le> s" and "0 < s"
  shows "- 2 \<le> (a - m) / s * 4 - 2 \<and> (a - m) / s * 4 - 2 \<le> 2"
proof -
  define t where "t = (a - m) / s"
  have "0 \<le> t" using assms by (simp add: t_def)
  moreover have "t \<le> 1" using assms by (simp add: t_def)
  ultimately have "- 2 \<le> t * 4 - 2 \<and> t * 4 - 2 \<le> 2" by simp
  then show ?thesis by (simp add: t_def)
qed

lemma max_axis_range_pos:
  assumes "p \<in> set points"
  shows "0 < max_axis_range points"
  using axis_range_pos [OF assms, of p3_x] by (simp add: max_axis_range_def less_max_iff_disj)

lemma axis_range_le_max:
  "axis_range p3_x points \<le> max_axis_range points"
  "axis_range p3_y points \<le> max_axis_range points"
  "axis_range p3_z points \<le> max_axis_range points"
  by (simp_all add: max_axis_range_def)

lemma scaled_bounds:
  assumes "p \<in> set points"
    and "axis_range c points \<le> max_axis_range points"
  shows "- 2 \<le> scaled points c p \<and> scaled points c p \<le> 2"
proof -
  have "axis_min c points \<le> num_val (c p)"
    using axis_bounds [OF assms(1), of c] by simp
  moreover have "num_val (c p) - axis_min c points \<le> axis_range c points"
    using axis_bounds [OF assms(1), of c] axis_range_pos [OF assms(1), of c] by linarith
  ultimately show ?thesis
    unfolding scaled_def
    using assms(2) max_axis_range_pos [OF assms(1)] by (rule scaled_in_range)
qed

lemma coord_scaled:
  assumes "p \<in> set points" and "is_finite (c p)"
    and "axis_max c points - axis_min c points < overflow_bound"
    and "axis_range c points \<le> max_axis_range points"
  shows "js_sub (js_mul (js_div (js_sub (c p) (Num (axis_min c points)))
             (Num (max_axis_range points))) (Num 4)) (Num 2) = Num (scaled points c p)"
proof -
  from axis_bounds [OF assms(1), of c] axis_range_pos [OF assms(1), of c]
  have lo: "axis_min c points \<le> num_val (c p)"
    and span: "num_val (c p) - axis_min c points \<le> axis_max c points - axis_min c points"
    and rng: "axis_max c points - axis_min c points \<le> axis_range c points"
    by simp_all
  from span rng assms(4)
  have le: "num_val (c p) - axis_min c points \<le> max_axis_range points" by linarith
  from span assms(3)
  have fin: "num_val (c p) - axis_min c points < overflow_bound" by linarith
  have "js_sub (js_mul (js_div (js_sub (Num (num_val (c p))) (Num (axis_min c points)))
             (Num (max_axis_range points))) (Num 4)) (Num 2) = Num (scaled points c p)"
    unfolding scaled_def
    using lo le max_axis_range_pos [OF assms(1)] fin by (rule scale_Num)
  with finite_coord [OF assms(2)] show ?thesis by simp
qed

lemma normalizedPoints_eq:
  assumes "points \<noteq> []" and "list_all finite_point points" and "ranges_finite points"
  shows "normalizedPoints points =
           map (\<lambda>p. p \<lparr> p3_x := Num (scaled points p3_x p),
                          p3_y := Num (scaled points p3_y p),
                          p3_z := Num (scaled points p3_z p) \<rparr>) points"
proof -
  from assms(2) have fx: "\<forall>p \<in> set points. is_finite (p3_x p)"
    and fy: "\<forall>p \<in> set points. is_finite (p3_y p)"
    and fz: "\<forall>p \<in> set points. is_finite (p3_z p)"
    by (simp_all add: list_all_iff finite_point_def)
  from assms(3) have rx: "axis_max p3_x points - axis_min p3_x points < overflow_bound"
    and ry: "axis_max p3_y points - axis_min p3_y points < overflow_bound"
    and rz: "axis_max p3_z points - axis_min p3_z points < overflow_bound"
    by (simp_all add: ranges_finite_def)
  from assms(1) obtain p0 where p0: "p0 \<in> set points" by (cases points) auto
  have mr: "Math_max [Num (axis_range p3_x points), Num (axis_range p3_y points),
                      Num (axis_range p3_z points)] = Num (max_axis_range points)"
    by (simp add: Math_max3 max_axis_range_def)
  have "normalizedPoints points =
          map (\<lambda>p. p \<lparr> p3_x := js_sub (js_mul (js_div (js_sub (p3_x p) (Num (axis_min p3_x points)))
                              (Num (max_axis_range points))) (Num 4)) (Num 2),
                         p3_y := js_sub (js_mul (js_div (js_sub (p3_y p) (Num (axis_min p3_y points)))
                              (Num (max_axis_range points))) (Num 4)) (Num 2),
                         p3_z := js_sub (js_mul (js_div (js_sub (p3_z p) (Num (axis_min p3_z points)))
                              (Num (max_axis_range points))) (Num 4)) (Num 2) \<rparr>) points"
    using assms(1)
    by (simp only: normalizedPoints_def Let_def length_0_conv if_False
        axis_Math_min [OF assms(1) fx] axis_Math_min [OF assms(1) fy] axis_Math_min [OF assms(1) fz]
        axis_Math_max [OF assms(1) fx] axis_Math_max [OF assms(1) fy] axis_Math_max [OF assms(1) fz]
        js_range [OF p0 rx] js_range [OF p0 ry] js_range [OF p0 rz] mr)
  also have "\<dots> = map (\<lambda>p. p \<lparr> p3_x := Num (scaled points p3_x p),
                          p3_y := Num (scaled points p3_y p),
                          p3_z := Num (scaled points p3_z p) \<rparr>) points"
    using fx fy fz rx ry rz
    by (intro map_cong refl) (simp add: coord_scaled axis_range_le_max)
  finally show ?thesis .
qed

text \<open>
  Claim C6. The display, not the reducer, normalizes the coordinates. For every
  non-empty list of points whose coordinates are finite and none of whose axis ranges
  overflows, the embeddings view subtracts the minimum of each axis, divides by one and
  the same positive factor on the three axes, multiplies by 4 and subtracts 2, and every
  coordinate it produces lies in the closed interval from \<open>-2\<close> to \<open>2\<close>. The factor
  is the largest of the three axis ranges after a zero range has been replaced by 1.
\<close>

theorem normalizedPoints_range:
  assumes "points \<noteq> []" and "list_all finite_point points" and "ranges_finite points"
  shows "0 < max_axis_range points
       \<and> normalizedPoints points =
           map (\<lambda>p. p \<lparr> p3_x := Num ((num_val (p3_x p) - axis_min p3_x points) / max_axis_range points * 4 - 2),
                          p3_y := Num ((num_val (p3_y p) - axis_min p3_y points) / max_axis_range points * 4 - 2),
                          p3_z := Num ((num_val (p3_z p) - axis_min p3_z points) / max_axis_range points * 4 - 2) \<rparr>)
               points
       \<and> (\<forall>q \<in> set (normalizedPoints points). \<exists>a b c.
             p3_x q = Num a \<and> p3_y q = Num b \<and> p3_z q = Num c
             \<and> - 2 \<le> a \<and> a \<le> 2 \<and> - 2 \<le> b \<and> b \<le> 2 \<and> - 2 \<le> c \<and> c \<le> 2)"
proof (intro conjI)
  from assms(1) obtain p0 where "p0 \<in> set points" by (cases points) auto
  then show "0 < max_axis_range points" by (rule max_axis_range_pos)
next
  show "normalizedPoints points =
           map (\<lambda>p. p \<lparr> p3_x := Num ((num_val (p3_x p) - axis_min p3_x points) / max_axis_range points * 4 - 2),
                          p3_y := Num ((num_val (p3_y p) - axis_min p3_y points) / max_axis_range points * 4 - 2),
                          p3_z := Num ((num_val (p3_z p) - axis_min p3_z points) / max_axis_range points * 4 - 2) \<rparr>)
               points"
    using normalizedPoints_eq [OF assms] by (simp add: scaled_def)
next
  show "\<forall>q \<in> set (normalizedPoints points). \<exists>a b c.
             p3_x q = Num a \<and> p3_y q = Num b \<and> p3_z q = Num c
             \<and> - 2 \<le> a \<and> a \<le> 2 \<and> - 2 \<le> b \<and> b \<le> 2 \<and> - 2 \<le> c \<and> c \<le> 2"
  proof
    fix q assume "q \<in> set (normalizedPoints points)"
    then obtain p where p: "p \<in> set points"
      and q: "q = p \<lparr> p3_x := Num (scaled points p3_x p),
                       p3_y := Num (scaled points p3_y p),
                       p3_z := Num (scaled points p3_z p) \<rparr>"
      unfolding normalizedPoints_eq [OF assms] by auto
    from q have "p3_x q = Num (scaled points p3_x p)" "p3_y q = Num (scaled points p3_y p)"
      "p3_z q = Num (scaled points p3_z p)" by simp_all
    with scaled_bounds [OF p axis_range_le_max(1)] scaled_bounds [OF p axis_range_le_max(2)]
      scaled_bounds [OF p axis_range_le_max(3)]
    show "\<exists>a b c. p3_x q = Num a \<and> p3_y q = Num b \<and> p3_z q = Num c
             \<and> - 2 \<le> a \<and> a \<le> 2 \<and> - 2 \<le> b \<and> b \<le> 2 \<and> - 2 \<le> c \<and> c \<le> 2"
      by blast
  qed
qed

lemma sample_embeddings_scale:
  "max_axis_range sample_embeddings = 2 \<and> axis_min p3_x sample_embeddings = 1"
  by (simp add: max_axis_range_def axis_range_def axis_max_def axis_min_def
      sample_embeddings_def)

lemma sample_embeddings_ranges: "ranges_finite sample_embeddings"
proof -
  have "\<bar>r\<bar> \<le> 1000 \<Longrightarrow> r < overflow_bound" for r :: real
    using small_below_overflow [of r] by simp
  then show ?thesis
    by (simp add: ranges_finite_def axis_max_def axis_min_def sample_embeddings_def)
qed

theorem normalizedPoints_range_witness:
  "sample_embeddings \<noteq> [] \<and> list_all finite_point sample_embeddings
   \<and> ranges_finite sample_embeddings
   \<and> 0 < max_axis_range sample_embeddings
   \<and> list_all (\<lambda>q. \<exists>a b c.
         p3_x q = Num a \<and> p3_y q = Num b \<and> p3_z q = Num c
         \<and> - 2 \<le> a \<and> a \<le> 2 \<and> - 2 \<le> b \<and> b \<le> 2 \<and> - 2 \<le> c \<and> c \<le> 2)
       (normalizedPoints sample_embeddings)"
proof -
  have h1: "sample_embeddings \<noteq> []" by (simp add: sample_embeddings_def)
  have h2: "list_all finite_point sample_embeddings"
    by (simp add: sample_embeddings_def finite_point_def)
  note h3 = sample_embeddings_ranges
  from normalizedPoints_range [OF h1 h2 h3] h1 h2 h3 show ?thesis
    unfolding list_all_iff by blast
qed

lemma sample_embeddings_normalized:
  "map (\<lambda>p. (p3_x p, p3_y p, p3_z p)) (normalizedPoints sample_embeddings)
     = [(Num (- 2), Num (- 2), Num (- 2)), (Num 2, Num 0, Num (- 2))]"
  by (simp add: normalizedPoints_def sample_embeddings_def Math_min_def Math_max_def
      js_sub_def js_or_def js_fin_small Let_def)

text \<open>
  As the claim is worded, for every non-empty list and with the maximum axis range as
  the factor, it fails. Between \<open>-1e308\<close> and \<open>1e308\<close> the range overflows to
  \<open>Infinity\<close>, and the point at the maximum gets \<open>Infinity / Infinity\<close>, which is
  \<open>NaN\<close>. With the ranges \<open>1/2\<close>, 0 and 0 the factor is 1, not the maximum axis
  range \<open>1/2\<close>: the point at the maximum is placed at 0, not at 2. A coordinate that
  is \<open>NaN\<close> makes every coordinate of its axis \<open>NaN\<close>.
\<close>

theorem normalizedPoints_range_counterexample:
  "map (\<lambda>p. (p3_x p, p3_y p, p3_z p)) (normalizedPoints huge_embeddings)
     = [(Num (- 2), Num (- 2), Num (- 2)), (NaN, Num (- 2), Num (- 2))]
   \<and> map (\<lambda>p. (p3_x p, p3_y p, p3_z p)) (normalizedPoints narrow_embeddings)
     = [(Num (- 2), Num (- 2), Num (- 2)), (Num 0, Num (- 2), Num (- 2))]
   \<and> map (\<lambda>p. (p3_x p, p3_y p, p3_z p)) (normalizedPoints nan_embeddings)
     = [(NaN, Num (- 2), Num (- 2))]"
proof -
  have huge: "map (\<lambda>p. (p3_x p, p3_y p, p3_z p)) (normalizedPoints huge_embeddings)
     = [(Num (- 2), Num (- 2), Num (- 2)), (NaN, Num (- 2), Num (- 2))]"
    by (simp add: normalizedPoints_def huge_embeddings_def Math_min_def Math_max_def
        js_sub_def js_or_def js_fin_overflow overflow_bound_def js_fin_small Let_def)
  have narrow: "map (\<lambda>p. (p3_x p, p3_y p, p3_z p)) (normalizedPoints narrow_embeddings)
     = [(Num (- 2), Num (- 2), Num (- 2)), (Num 0, Num (- 2), Num (- 2))]"
    by (simp add: normalizedPoints_def narrow_embeddings_def Math_min_def Math_max_def
        js_sub_def js_or_def js_fin_small Let_def)
  have nan: "map (\<lambda>p. (p3_x p, p3_y p, p3_z p)) (normalizedPoints nan_embeddings)
     = [(NaN, Num (- 2), Num (- 2))]"
    by (simp add: normalizedPoints_def nan_embeddings_def Math_min_def Math_max_def
        js_sub_def js_or_def js_fin_small Let_def)
  from huge narrow nan show ?thesis by blast
qed

section \<open>Properties of the head profiler view\<close>

lemma count_partition:
  "list_all (\<lambda>p. 0 \<le> hp_cluster p \<and> hp_cluster p < 5) points \<Longrightarrow>
   (\<Sum>c\<leftarrow>[0, 1, 2, 3, 4]. length (filter (\<lambda>p. hp_cluster p = c) points)) = length points"
proof (induction points)
  case Nil
  then show ?case by simp
next
  case (Cons p ps)
  then have "hp_cluster p = 0 \<or> hp_cluster p = 1 \<or> hp_cluster p = 2 \<or> hp_cluster p = 3 \<or> hp_cluster p = 4"
    by auto
  with Cons show ?case by auto
qed

lemma legend_ids:
  "points \<noteq> [] \<Longrightarrow> map legend_clusterId (legend points) = [0, 1, 2, 3, 4]"
  by (simp add: legend_def Let_def)

lemma legend_counts:
  "sum_list (map legend_count (legend points))
     = (\<Sum>c\<leftarrow>[0, 1, 2, 3, 4]. length (filter (\<lambda>p. hp_cluster p = c) points))"
  by (cases points) (simp_all add: legend_def Let_def)

lemma colour_in_bounds:
  assumes "0 \<le> c" and "c < 5"
  shows "nat c < length CLUSTER_COLORS
       \<and> array_get CLUSTER_COLORS c = Some (CLUSTER_COLORS ! nat c)"
  using assms by (simp add: array_get_def CLUSTER_COLORS_def)

lemma plot_colours:
  "map style_backgroundColor (plotPoints points)
     = map (\<lambda>p. array_get CLUSTER_COLORS (hp_cluster p)) points"
  by (cases points) (simp_all add: plotPoints_def Let_def)

lemma legend_entry_unique:
  assumes "e1 \<in> set (legend points)" and "e2 \<in> set (legend points)"
    and "legend_clusterId e1 = legend_clusterId e2"
  shows "e1 = e2"
proof (cases points)
  case Nil
  with assms(1) show ?thesis by (simp add: legend_def)
next
  case (Cons p ps)
  then have "length points > 0" by simp
  with assms show ?thesis
    by (auto simp add: legend_def Let_def)
qed

lemma one_legend_entry:
  assumes "p \<in> set points" and "0 \<le> hp_cluster p" and "hp_cluster p < 5"
  shows "\<exists>!e. e \<in> set (legend points) \<and> legend_clusterId e = hp_cluster p"
proof -
  from assms(1) have "points \<noteq> []" by auto
  then have "map legend_clusterId (legend points) = [0, 1, 2, 3, 4]" by (rule legend_ids)
  moreover from assms(2,3) have "hp_cluster p \<in> set [0, 1, 2, 3, 4]" by auto
  ultimately have "hp_cluster p \<in> legend_clusterId ` set (legend points)"
    by (metis set_map)
  then obtain e where "e \<in> set (legend points)" "legend_clusterId e = hp_cluster p" by auto
  then show ?thesis using legend_entry_unique by (intro ex1I [of _ e]) auto
qed

lemma count_by_cluster:
  "length (filter (\<lambda>p. hp_cluster p = c) points) = count_list (map hp_cluster points) c"
  by (induction points) simp_all

lemma legend_entries:
  "map (\<lambda>e. (legend_clusterId e, legend_color e, legend_count e)) (legend points)
     = (if points = [] then []
        else map (\<lambda>c. (c, Some (CLUSTER_COLORS ! nat c), count_list (map hp_cluster points) c))
               [0, 1, 2, 3, 4])"
  by (cases points)
    (simp_all add: legend_def Let_def count_by_cluster array_get_def CLUSTER_COLORS_def)

text \<open>
  Claim C5. For every list of points whose cluster ids all lie in \<open>[0, 5)\<close>: reading
  the table of the five cluster colours at the cluster id of any head is in bounds, so
  every plotted point gets its colour of the table; the legend has one entry for each of
  the cluster ids 0 to 4, in this order, with the colour of the table at that id and
  with the number of points of that cluster as its count; every head is counted by
  exactly one entry; and the five counts add up to the number of points.
\<close>

theorem cluster_ids_index_colours_and_partition:
  assumes "cluster_ids_in_range points"
  shows "(\<forall>p \<in> set points.
            nat (hp_cluster p) < length CLUSTER_COLORS
            \<and> array_get CLUSTER_COLORS (hp_cluster p) = Some (CLUSTER_COLORS ! nat (hp_cluster p)))
       \<and> map style_backgroundColor (plotPoints points)
           = map (\<lambda>p. Some (CLUSTER_COLORS ! nat (hp_cluster p))) points
       \<and> map (\<lambda>e. (legend_clusterId e, legend_color e, legend_count e)) (legend points)
           = (if points = [] then []
              else map (\<lambda>c. (c, Some (CLUSTER_COLORS ! nat c),
                               count_list (map hp_cluster points) c))
                     [0, 1, 2, 3, 4])
       \<and> (\<forall>p \<in> set points.
             \<exists>!e. e \<in> set (legend points) \<and> legend_clusterId e = hp_cluster p)
       \<and> sum_list (map legend_count (legend points)) = length points"
proof -
  from assms have range: "list_all (\<lambda>p. 0 \<le> hp_cluster p \<and> hp_cluster p < 5) points"
    by (simp add: cluster_ids_in_range_def)
  then have each: "\<forall>p \<in> set points. 0 \<le> hp_cluster p \<and> hp_cluster p < 5"
    by (simp add: list_all_iff)
  have a: "\<forall>p \<in> set points.
            nat (hp_cluster p) < length CLUSTER_COLORS
            \<and> array_get CLUSTER_COLORS (hp_cluster p) = Some (CLUSTER_COLORS ! nat (hp_cluster p))"
    using each colour_in_bounds by blast
  then have b: "map style_backgroundColor (plotPoints points)
           = map (\<lambda>p. Some (CLUSTER_COLORS ! nat (hp_cluster p))) points"
    unfolding plot_colours by simp
  note c = legend_entries [of points]
  have d: "\<forall>p \<in> set points.
             \<exists>!e. e \<in> set (legend points) \<and> legend_clusterId e = hp_cluster p"
    using each one_legend_entry by blast
  have e: "sum_list (map legend_count (legend points)) = length points"
    unfolding legend_counts using count_partition [OF range] .
  from a b c d e show ?thesis by blast
qed

theorem cluster_ids_index_colours_and_partition_witness:
  "cluster_ids_in_range sample_heads
   \<and> map style_backgroundColor (plotPoints sample_heads)
       = map (\<lambda>p. Some (CLUSTER_COLORS ! nat (hp_cluster p))) sample_heads
   \<and> map (\<lambda>e. (legend_clusterId e, legend_color e, legend_count e)) (legend sample_heads)
       = (if sample_heads = [] then []
          else map (\<lambda>c. (c, Some (CLUSTER_COLORS ! nat c),
                           count_list (map hp_cluster sample_heads) c))
                 [0, 1, 2, 3, 4])
   \<and> sum_list (map legend_count (legend sample_heads)) = length sample_heads"
proof -
  have ok: "cluster_ids_in_range sample_heads"
    by (simp add: cluster_ids_in_range_def sample_heads_def)
  from cluster_ids_index_colours_and_partition [OF ok] ok show ?thesis by blast
qed

lemma sample_legend:
  "map (\<lambda>e. (legend_clusterId e, legend_color e, legend_count e)) (legend sample_heads)
     = [(0, Some ''#3b82f6'', 1), (1, Some ''#10b981'', 0), (2, Some ''#f59e0b'', 0),
        (3, Some ''#ef4444'', 0), (4, Some ''#8b5cf6'', 2)]"
  by (simp add: legend_def sample_heads_def array_get_def CLUSTER_COLORS_def Let_def)

text \<open>
  Without the range the claim fails: the view does not check the cluster ids it
  receives. With the ids 5 and \<open>-1\<close> the colour of both plotted points is undefined,
  and the legend counts no point, although there are two.
\<close>

theorem cluster_ids_index_colours_and_partition_counterexample:
  "map hp_cluster stray_heads = [5, - 1]
   \<and> map style_backgroundColor (plotPoints stray_heads) = [None, None]
   \<and> sum_list (map legend_count (legend stray_heads)) = 0
   \<and> length stray_heads = 2"
  by (simp add: stray_heads_def plotPoints_def legend_def array_get_def CLUSTER_COLORS_def
      Let_def)

text \<open>Outside the range the table has no colour: the style is left undefined.\<close>

lemma colour_out_of_bounds: "array_get CLUSTER_COLORS 5 = None"
  by (simp add: array_get_def CLUSTER_COLORS_def)

text \<open>With equal minimum and maximum, \<open>normalizeCoord\<close> computes \<open>0 / 0\<close>.\<close>

lemma normalizeCoord_flat: "normalizeCoord (Num a) (Num a) (Num a) = NaN"
  by (simp add: normalizeCoord_def js_sub_def js_fin_small)

text \<open>
  Whenever all points share one finite \<open>x\<close> coordinate, minimum and maximum coincide
  and the \<open>left\<close> position of every plotted point is \<open>NaN\<close>.
\<close>

lemma fold_min2_const:
  "list_all (\<lambda>v. v = Num a) vs \<Longrightarrow> foldl js_min2 (Num a) vs = Num a"
  by (induction vs) simp_all

lemma fold_max2_const:
  "list_all (\<lambda>v. v = Num a) vs \<Longrightarrow> foldl js_max2 (Num a) vs = Num a"
  by (induction vs) simp_all

lemma Math_min_max_const:
  assumes "vs \<noteq> []" and "list_all (\<lambda>v. v = Num a) vs"
  shows "Math_min vs = Num a \<and> Math_max vs = Num a"
  using assms by (cases vs) (simp_all add: Math_min_def Math_max_def fold_min2_const fold_max2_const)

lemma flat_axis_left_NaN:
  assumes "points \<noteq> []" and "list_all (\<lambda>p. hp_x p = Num a) points"
  shows "list_all (\<lambda>s. style_left s = NaN) (plotPoints points)"
proof -
  from assms(2) have flat: "list_all (\<lambda>v. v = Num a) (map hp_x points)"
    by (simp add: list_all_iff)
  from assms(1) have "map hp_x points \<noteq> []" by simp
  from Math_min_max_const [OF this flat]
  have mm: "Math_min (map hp_x points) = Num a" "Math_max (map hp_x points) = Num a"
    by simp_all
  from assms(1) have "0 < length points" by simp
  then have "map style_left (plotPoints points)
               = map (\<lambda>p. normalizeCoord (hp_x p) (Num a) (Num a)) points"
    by (simp add: plotPoints_def Let_def mm)
  also have "\<dots> = map (\<lambda>p. NaN) points"
    using assms(2) by (intro map_cong refl) (simp add: list_all_iff normalizeCoord_flat)
  finally have "map style_left (plotPoints points) = map (\<lambda>p. NaN) points" .
  then have "set (map style_left (plotPoints points)) \<subseteq> {NaN}" by auto
  then show ?thesis by (auto simp: list_all_iff)
qed

text \<open>
  Claim C4. On a flat input, where every point has the same coordinates, each display
  path that normalizes coordinates should give finite coordinates. The embeddings view
  does: a zero range is replaced by 1 and every coordinate becomes \<open>-2\<close>. The head
  profiler view does not: \<open>normalizeCoord\<close> divides by \<open>max - min\<close>, which is 0, so
  the position \<open>left\<close> and \<open>top\<close> and the size of every point are \<open>NaN\<close>.
\<close>

theorem flat_input_profiler_NaN:
  "map style_left (plotPoints flat_heads) = [NaN, NaN]
   \<and> map style_top (plotPoints flat_heads) = [NaN, NaN]
   \<and> map style_size (plotPoints flat_heads) = [NaN, NaN]
   \<and> map (\<lambda>p. (p3_x p, p3_y p, p3_z p)) (normalizedPoints flat_embeddings)
       = [(Num (- 2), Num (- 2), Num (- 2)), (Num (- 2), Num (- 2), Num (- 2))]"
  by (simp add: plotPoints_def flat_heads_def normalizedPoints_def flat_embeddings_def
      normalizeCoord_def Math_min_def Math_max_def js_sub_def js_or_def js_fin_small Let_def)

section \<open>Properties of the API client library\<close>

text \<open>
  Claim C1. The client library should define every accessor that the head profiler view
  calls on \<open>attentionApi\<close>. It defines \<open>analyze\<close> only: each of the five calls of
  the view (\<open>getHeadProfiles\<close>, \<open>getHeadExamples\<close>, \<open>getClusterInfo\<close>,
  \<open>getMetadata\<close>, \<open>getHeadExplanation\<close>) reads an undefined property and throws.
\<close>

theorem profiler_accessors_undefined:
  "map (\<lambda>(k, f). call_accessor attentionApi f arg) profilerQueries
     = [Inl TypeError, Inl TypeError, Inl TypeError, Inl TypeError, Inl TypeError]
   \<and> call_accessor attentionApi ''analyze'' data
     = Inr \<lparr> http = POST, url = ''/api/attention/analyze'' \<rparr>
   \<and> call_accessor contextApi ''getRecallCurve'' (Some 16000)
     = Inr \<lparr> http = GET, url = ''/api/context/recall-curve?max_tokens=16000'' \<rparr>
   \<and> call_accessor contextApi ''getRecallCurve'' None
     = Inr \<lparr> http = GET, url = ''/api/context/recall-curve?max_tokens=16000'' \<rparr>"
  by (simp add: call_accessor_def attentionApi_def contextApi_def profilerQueries_def
      show_int_def show_nat.simps)

section \<open>Properties of the feature builder\<close>

lemma collect_error:
  "collectObservations extractor corpus = Inl e \<Longrightarrow> e = NonNormalizedMatrix"
  by (induction corpus) (auto split: option.splits if_splits sum.splits)

lemma collect_fails_iff:
  "collectObservations extractor corpus = Inl NonNormalizedMatrix
     \<longleftrightarrow> (\<exists>m \<in> set (consumed extractor corpus). \<exists>row \<in> set m. \<not> row_sums_to_one row)"
proof (induction corpus)
  case Nil
  then show ?case by (simp add: consumed_def)
next
  case (Cons sentence corpus)
  show ?case
  proof (cases "extractor sentence")
    case None
    with Cons show ?thesis by (simp add: consumed_def)
  next
    case (Some obs)
    have bad: "(\<not> list_all (\<lambda>(h, m). observation_normalized m) obs)
                 \<longleftrightarrow> (\<exists>m \<in> set (map snd obs). \<exists>row \<in> set m. \<not> row_sums_to_one row)"
      by (fastforce simp: list_all_iff observation_normalized_def)
    have split: "set (consumed extractor (sentence # corpus))
                   = set (map snd obs) \<union> set (consumed extractor corpus)"
      using Some by (simp add: consumed_def)
    show ?thesis
    proof (cases "list_all (\<lambda>(h, m). observation_normalized m) obs")
      case True
      with bad have ok: "\<not> (\<exists>m \<in> set (map snd obs). \<exists>row \<in> set m. \<not> row_sums_to_one row)"
        by simp
      have "collectObservations extractor (sentence # corpus) = Inl NonNormalizedMatrix
              \<longleftrightarrow> collectObservations extractor corpus = Inl NonNormalizedMatrix"
        using Some True by (auto split: sum.splits)
      with Cons ok show ?thesis unfolding split by blast
    next
      case False
      then have "collectObservations extractor (sentence # corpus) = Inl NonNormalizedMatrix"
        using Some by simp
      moreover from False bad
      have "\<exists>m \<in> set (map snd obs). \<exists>row \<in> set m. \<not> row_sums_to_one row" by simp
      ultimately show ?thesis unfolding split by blast
    qed
  qed
qed

text \<open>
  Claim C3. Building features fails at once, with an error and no feature vector, when
  a matrix it consumes has a row whose sum differs from 1 by more than \<open>1e-3\<close>; hence
  whenever features are built, every row of every matrix consumed sums to 1 within
  that tolerance.
\<close>

theorem buildFeatures_fails_fast:
  "((\<exists>m \<in> set (consumed extractor corpus). \<exists>row \<in> set m. \<not> \<bar>sum_list row - 1\<bar> \<le> 1 / 1000)
      \<longrightarrow> buildFeatures minSentences aggregate extractor corpus = Inl NonNormalizedMatrix)
   \<and> ((\<exists>features. buildFeatures minSentences aggregate extractor corpus = Inr features)
      \<longrightarrow> (\<forall>m \<in> set (consumed extractor corpus). \<forall>row \<in> set m. \<bar>sum_list row - 1\<bar> \<le> 1 / 1000))"
proof (intro conjI impI)
  assume "\<exists>m \<in> set (consumed extractor corpus). \<exists>row \<in> set m. \<not> \<bar>sum_list row - 1\<bar> \<le> 1 / 1000"
  then have "collectObservations extractor corpus = Inl NonNormalizedMatrix"
    by (simp add: collect_fails_iff row_sums_to_one_def)
  then show "buildFeatures minSentences aggregate extractor corpus = Inl NonNormalizedMatrix"
    by (simp add: buildFeatures_def)
next
  assume "\<exists>features. buildFeatures minSentences aggregate extractor corpus = Inr features"
  then have "collectObservations extractor corpus \<noteq> Inl NonNormalizedMatrix"
    by (auto simp: buildFeatures_def)
  then show "\<forall>m \<in> set (consumed extractor corpus). \<forall>row \<in> set m. \<bar>sum_list row - 1\<bar> \<le> 1 / 1000"
    by (simp add: collect_fails_iff row_sums_to_one_def)
qed

theorem buildFeatures_fails_fast_witness:
  "(\<exists>m \<in> set (consumed sample_extractor [''the cat sat'', ''a dog ran'']).
      \<exists>row \<in> set m. \<not> \<bar>sum_list row - 1\<bar> \<le> 1 / 1000)
   \<and> buildFeatures 1 length sample_extractor [''the cat sat'', ''a dog ran'']
       = Inl NonNormalizedMatrix
   \<and> buildFeatures 1 length sample_extractor [''the cat sat''] = Inr 1
   \<and> list_all (list_all (\<lambda>row. \<bar>sum_list row - 1\<bar> \<le> 1 / 1000))
       (consumed sample_extractor [''the cat sat''])"
proof -
  have bad: "\<exists>m \<in> set (consumed sample_extractor [''the cat sat'', ''a dog ran'']).
      \<exists>row \<in> set m. \<not> \<bar>sum_list row - 1\<bar> \<le> 1 / 1000"
    by (simp add: consumed_def sample_extractor_def)
  have good: "buildFeatures 1 length sample_extractor [''the cat sat''] = Inr 1"
    by (simp add: buildFeatures_def sample_extractor_def observation_normalized_def
        row_sums_to_one_def)
  from bad good
    buildFeatures_fails_fast [of sample_extractor "[''the cat sat'', ''a dog ran'']" 1 length]
    buildFeatures_fails_fast [of sample_extractor "[''the cat sat'']" 1 length]
  show ?thesis unfolding list_all_iff by blast
qed

end
